theory Spec2Isabelle
  imports Main
begin

section \<open>Errors\<close>

text \<open>
  Every error value the three components construct, and the two ways a call can panic.
  A Go return of \<open>(nil, err)\<close> is \<open>Inl err\<close>, a return of \<open>(v, nil)\<close> is \<open>Inr v\<close>.
  \<^item> \<open>InvalidArgument\<close>: \<^verbatim>\<open>errors.New("peerstore: invalid argument")\<close>
  \<^item> \<open>NotPresent i\<close>: \<^verbatim>\<open>errors.Errorf("peerstore: peer %s not present", i)\<close>
  \<^item> \<open>NilKeys\<close>: \<^verbatim>\<open>errors.Errorf("PeerWithKeyPair nil keys")\<close>
  \<^item> \<open>KeyMismatch\<close>: \<^verbatim>\<open>errors.Errorf("key mismatch. pubkey is not privkey's pubkey")\<close>
  \<^item> \<open>HashFailed e\<close>: \<^verbatim>\<open>errors.Errorf("Failed to hash public key: %v", err)\<close>
  \<^item> \<open>AlreadyOnline\<close>: \<^verbatim>\<open>debugerror.New("node already online")\<close>
  \<^item> \<open>OutOfOrder\<close>: \<^verbatim>\<open>debugerror.New("loaded private key out of order.")\<close>
  \<^item> \<open>KeyAlreadyLoaded\<close>: \<^verbatim>\<open>debugerror.New("private key already loaded")\<close>
  \<^item> \<open>IdMismatch\<close>: \<^verbatim>\<open>fmt.Errorf("private key in config does not match id: ...")\<close>
  \<^item> \<open>ParseFailure i\<close>: \<^verbatim>\<open>fmt.Errorf("Failure to parse config.Addresses.Swarm[%d]: %s", i, ...)\<close>
  \<^item> \<open>NotUsable\<close>: \<^verbatim>\<open>debugerror.Errorf("addresses in config not usable: %s", listenAddrs)\<close>
  \<^item> \<open>External e\<close>: an error handed back by a collaborator (host, stream, codec,
    routing, key decoding), passed on as it is or wrapped
  \<^item> \<open>Panic m\<close>: \<^verbatim>\<open>panic(m)\<close>
  \<^item> \<open>NilDereference\<close>: the runtime panic of a method call on a nil interface value
\<close>

datatype error =
    InvalidArgument
  | NotPresent "string option"
  | NilKeys
  | KeyMismatch
  | HashFailed string
  | AlreadyOnline
  | OutOfOrder
  | KeyAlreadyLoaded
  | IdMismatch
  | ParseFailure nat
  | NotUsable
  | External string
  | Panic string
  | NilDereference


section \<open>The peer registry (peer/peerstore.go)\<close>

subsection \<open>Data\<close>

text \<open>
  \<open>ID\<close> is a byte slice: the source compares it with \<open>nil\<close> and converts a string to
  it (\<^verbatim>\<open>ID(id)\<close>). \<open>None\<close> is the nil slice, \<open>Some []\<close> the empty slice that is not
  nil (what \<^verbatim>\<open>ID("")\<close> gives).
\<close>

type_synonym ID = "string option"

text \<open>
  The key under which a record is stored: \<^verbatim>\<open>i.String()\<close> for an id and
  \<^verbatim>\<open>peer.Key().String()\<close> for a record, which is the same key of the record's id. The
  method is declared with the type, in another file; the map's own comment says what
  it is: \<^verbatim>\<open>data map[string]Peer // key is string(ID)\<close>. Both the nil and the empty
  slice convert to the empty string.
\<close>

definition String :: "ID \<Rightarrow> string" where
  "String i = (case i of None \<Rightarrow> [] | Some bs \<Rightarrow> bs)"

text \<open>Keys are opaque byte strings; what is done with them is the crypto package's.\<close>

type_synonym PubKey = string
type_synonym PrivKey = string

datatype Type = Unspecified | Local | Remote

text \<open>
  Modelled from the spec: the fields of the \<open>peer\<close> struct other than \<open>id\<close> (here
  \<open>pid\<close>), \<open>pubKey\<close> and \<open>privKey\<close>, which are those of the composite literal in
  \<open>WithKeyPair\<close>. The struct is declared in another file of the package; the spec
  gives a record "a set of known network addresses, protocol/version strings, and a
  role tag (local vs remote)".
\<close>

record peer =
  pid :: ID
  pubKey :: "PubKey option"
  privKey :: "PrivKey option"
  addresses :: "string set"
  protocolVersion :: string
  agentVersion :: string
  peerType :: Type

text \<open>\<^verbatim>\<open>&peer{id: i}\<close>: every other field has its zero value.\<close>

definition bare :: "ID \<Rightarrow> peer" where
  "bare i = \<lparr>pid = i, pubKey = None, privKey = None, addresses = {},
     protocolVersion = [], agentVersion = [], peerType = Unspecified\<rparr>"

text \<open>
  Modelled from the spec: the method \<open>Update\<close> of \<open>peer\<close>, which \<open>Add\<close> calls and which
  is declared with the struct. "Address sets are unioned, keys are adopted only if the
  existing record lacks them, version/role fields are overwritten by the incoming
  value."
\<close>

definition Update :: "peer \<Rightarrow> peer \<Rightarrow> peer" where
  "Update existing other = existing
     \<lparr>pubKey := (case pubKey existing of None \<Rightarrow> pubKey other | Some k \<Rightarrow> Some k),
      privKey := (case privKey existing of None \<Rightarrow> privKey other | Some k \<Rightarrow> Some k),
      addresses := addresses existing \<union> addresses other,
      protocolVersion := protocolVersion other,
      agentVersion := agentVersion other,
      peerType := peerType other\<rparr>"

text \<open>
  A \<open>Peer\<close> is a pointer to a \<open>peer\<close>, and \<open>Add\<close> compares pointers
  (\<^verbatim>\<open>peer == existing\<close>) and updates the record behind one (\<^verbatim>\<open>existing.Update(peer)\<close>).
  So the registry's state is a store of records together with the map of the
  \<open>peerstore\<close> struct: a pointer is an index into \<open>heap\<close>, a new record is allocated at
  its end, and an index outside it stands for the nil \<open>Peer\<close>.
\<close>

type_synonym Peer = nat

record peerstore =
  heap :: "peer list"
  data :: "string \<rightharpoonup> Peer"

text \<open>\<open>NewPeerstore\<close>, with nothing allocated yet.\<close>

definition NewPeerstore :: peerstore where
  "NewPeerstore = \<lparr>heap = [], data = Map.empty\<rparr>"

definition alloc :: "peer \<Rightarrow> peerstore \<Rightarrow> Peer \<times> peerstore" where
  "alloc r ps = (length (heap ps), ps\<lparr>heap := heap ps @ [r]\<rparr>)"

subsection \<open>Operations\<close>

text \<open>
  Each operation returns its result and the state it leaves. The lock is held for the
  whole of an operation and has no part in what one call computes.
\<close>

definition Get :: "peerstore \<Rightarrow> ID \<Rightarrow> (error + Peer) \<times> peerstore" where
  "Get ps i =
     (if i = None then (Inl InvalidArgument, ps)
      else case data ps (String i) of
             None \<Rightarrow> (Inl (NotPresent i), ps)
           | Some p \<Rightarrow> (Inr p, ps))"

definition FindOrCreate :: "peerstore \<Rightarrow> ID \<Rightarrow> (error + Peer) \<times> peerstore" where
  "FindOrCreate ps i =
     (if i = None then (Inl (Panic ''wat''), ps)
      else case data ps (String i) of
             None \<Rightarrow>
               (let (p, ps1) = alloc (bare i) ps
                in (Inr p, ps1\<lparr>data := (data ps1)(String i \<mapsto> p)\<rparr>))
           | Some p \<Rightarrow> (Inr p, ps))"

definition Add :: "peerstore \<Rightarrow> Peer \<Rightarrow> (error + Peer) \<times> peerstore" where
  "Add ps r =
     (if \<not> r < length (heap ps) then (Inl NilDereference, ps)
      else
        let k = String (pid (heap ps ! r)) in
        case data ps k of
          None \<Rightarrow> (Inr r, ps\<lparr>data := (data ps)(k \<mapsto> r)\<rparr>)
        | Some existing \<Rightarrow>
            if r = existing then (Inr r, ps)
            else if \<not> existing < length (heap ps) then (Inl NilDereference, ps)
            else (Inr existing,
                  ps\<lparr>heap := (heap ps)
                        [existing := Update (heap ps ! existing) (heap ps ! r)]\<rparr>))"

definition Delete :: "peerstore \<Rightarrow> ID \<Rightarrow> error option \<times> peerstore" where
  "Delete ps i = (None, ps\<lparr>data := (data ps)(String i := None)\<rparr>)"

text \<open>
  \<open>WithKeyPair\<close>. The keys' operations belong to the crypto and peer packages and
  are parameters: \<open>GetPublic\<close> (\<^verbatim>\<open>sk.GetPublic()\<close>), \<open>Equals\<close>
  (\<^verbatim>\<open>pk.Equals(pk2)\<close>) and \<open>IDFromPubKey\<close>. A key argument is an interface value, nil
  being \<open>None\<close>. The result of the inner \<open>Add\<close> is dropped, as in the source, and the
  freshly allocated record is returned.
\<close>

definition WithKeyPair ::
  "(PrivKey \<Rightarrow> PubKey) \<Rightarrow> (PubKey \<Rightarrow> PubKey \<Rightarrow> bool) \<Rightarrow> (PubKey \<Rightarrow> string + ID) \<Rightarrow>
   peerstore \<Rightarrow> PrivKey option \<Rightarrow> PubKey option \<Rightarrow> (error + Peer) \<times> peerstore" where
  "WithKeyPair GetPublic Equals IDFromPubKey ps sk pk =
     (if sk = None \<and> pk = None then (Inl NilKeys, ps)
      else
        (case sk of
           None \<Rightarrow> (Inl NilDereference, ps)
         | Some s \<Rightarrow>
             (let pk2 = GetPublic s;
                  checked = (case pk of
                               None \<Rightarrow> Inr pk2
                             | Some q \<Rightarrow> (if \<not> Equals q pk2 then Inl KeyMismatch else Inr q))
              in (case checked of
                    Inl e \<Rightarrow> (Inl e, ps)
                  | Inr pk' \<Rightarrow>
                      (case IDFromPubKey pk' of
                         Inl e \<Rightarrow> (Inl (HashFailed e), ps)
                       | Inr pkid \<Rightarrow>
                           (let (p, ps1) =
                                  alloc ((bare pkid)\<lparr>pubKey := Some pk', privKey := Some s\<rparr>) ps
                            in (Inr p, snd (Add ps1 p))))))))"

definition WithID :: "peerstore \<Rightarrow> ID \<Rightarrow> Peer \<times> peerstore" where
  "WithID ps i = (let (p, ps1) = alloc (bare i) ps in (p, snd (Add ps1 p)))"

definition WithIDString :: "peerstore \<Rightarrow> string \<Rightarrow> Peer \<times> peerstore" where
  "WithIDString ps s = WithID ps (Some s)"

text \<open>
  The invariant of the registry's state: every stored pointer points into the store.
  It holds of \<open>NewPeerstore\<close> and every operation keeps it, so it holds of every state
  the operations can reach.
\<close>

definition wf :: "peerstore \<Rightarrow> bool" where
  "wf ps = (ran (data ps) \<subseteq> {..<length (heap ps)})"


section \<open>The exchange transport (exchange/bitswap/network)\<close>

subsection \<open>Collaborators\<close>

text \<open>
  The transport is written against the newer peer package, where an id is a string
  compared by value (\<^verbatim>\<open>info.ID != bsnet.host.ID()\<close>). Messages and addresses are opaque.
\<close>

type_synonym p2p_ID = string
type_synonym Message = string
type_synonym Multiaddr = string
type_synonym Key = string

record PeerInfo =
  ID :: p2p_ID
  Addrs :: "Multiaddr list"

text \<open>
  A stream, with what the codec does on it: \<open>ToNet\<close> is the error of
  \<^verbatim>\<open>outgoing.ToNet(s)\<close> (\<open>None\<close> is the nil error), \<open>FromNet\<close> the two results of
  \<^verbatim>\<open>bsmsg.FromNet(s)\<close>, and \<open>RemotePeer\<close> is \<^verbatim>\<open>s.Conn().RemotePeer()\<close>.
\<close>

record Stream =
  stream_no :: nat
  RemotePeer :: p2p_ID
  ToNet :: "Message \<Rightarrow> error option"
  FromNet :: "Message option \<times> error option"

text \<open>
  The host: its id, the error of \<^verbatim>\<open>Connect(ctx, PeerInfo{ID: p})\<close> and the result of
  \<^verbatim>\<open>NewStream(ProtocolBitswap, p)\<close>. A cancelled context is one of the reasons for which
  \<open>Connect\<close> returns an error.
\<close>

record Host =
  host_ID :: p2p_ID
  Connect :: "p2p_ID \<Rightarrow> error option"
  NewStream :: "p2p_ID \<Rightarrow> error + Stream"

text \<open>
  The routing system: the records its provider search yields on its channel until it
  closes the channel, and the error of \<open>Provide\<close>.
\<close>

record IpfsRouting =
  routing_FindProvidersAsync :: "Key \<Rightarrow> int \<Rightarrow> PeerInfo list"
  routing_Provide :: "Key \<Rightarrow> error option"

text \<open>A receiver is known by its number; a call of one of its methods is an event.\<close>

type_synonym Receiver = nat

record impl =
  host :: Host
  routing :: IpfsRouting
  receiver :: "Receiver option"

text \<open>
  What a call does to the world outside, in the order in which it does it:
  \<^item> \<open>Dialed p\<close>: \<^verbatim>\<open>bsnet.host.Connect(ctx, peer.PeerInfo{ID: p})\<close>
  \<^item> \<open>Opened n\<close>: \<^verbatim>\<open>bsnet.host.NewStream(ProtocolBitswap, p)\<close> returned stream \<open>n\<close>
  \<^item> \<open>OpenFailed p\<close>: it returned an error
  \<^item> \<open>Wrote n m\<close>: \<^verbatim>\<open>outgoing.ToNet(s)\<close>
  \<^item> \<open>ReadFrom n\<close>: \<^verbatim>\<open>bsmsg.FromNet(s)\<close>
  \<^item> \<open>Closed n\<close>: \<^verbatim>\<open>s.Close()\<close>
  \<^item> \<open>Log_Errorf\<close>, \<open>Log_Debugf\<close>: a line of the log
  \<^item> \<open>Go_ReceiveError r e\<close>: \<^verbatim>\<open>go bsnet.receiver.ReceiveError(err)\<close>, a new goroutine
  \<^item> \<open>ReceiveMessage r p m\<close>: \<^verbatim>\<open>bsnet.receiver.ReceiveMessage(ctx, p, received)\<close>
  \<^item> \<open>AddAddresses p as\<close>: \<^verbatim>\<open>bsnet.host.Peerstore().AddAddresses(info.ID, info.Addrs)\<close>
  \<^item> \<open>Sent p\<close>: \<^verbatim>\<open>out <- info.ID\<close>, taken by the consumer
  \<^item> \<open>Close_out\<close>: \<^verbatim>\<open>close(out)\<close>
  \<^item> \<open>Provided k\<close>: \<^verbatim>\<open>bsnet.routing.Provide(ctx, k)\<close>
\<close>

datatype event =
    Dialed p2p_ID
  | Opened nat
  | OpenFailed p2p_ID
  | Wrote nat Message
  | ReadFrom nat
  | Closed nat
  | Log_Errorf
  | Log_Debugf
  | Go_ReceiveError Receiver error
  | ReceiveMessage Receiver p2p_ID "Message option"
  | AddAddresses p2p_ID "Multiaddr list"
  | Sent p2p_ID
  | Close_out
  | Provided Key

subsection \<open>Sending\<close>

text \<open>
  \<^verbatim>\<open>defer s.Close()\<close> runs when the function returns, whatever the return statement:
  the events of the rest of the body are followed by \<open>Closed\<close>. The last
  \<^verbatim>\<open>return err\<close> of \<open>SendMessage\<close> returns the error of \<open>NewStream\<close>, which is nil there.
\<close>

definition SendMessage :: "impl \<Rightarrow> p2p_ID \<Rightarrow> Message \<Rightarrow> error option \<times> event list" where
  "SendMessage bsnet p outgoing =
     (case Connect (host bsnet) p of
        Some err \<Rightarrow> (Some err, [Dialed p])
      | None \<Rightarrow>
          (case NewStream (host bsnet) p of
             Inl err \<Rightarrow> (Some err, [Dialed p, OpenFailed p])
           | Inr s \<Rightarrow>
               (let (res, body) =
                      (case ToNet s outgoing of
                         Some err \<Rightarrow> (Some err, [Wrote (stream_no s) outgoing, Log_Errorf])
                       | None \<Rightarrow> (None, [Wrote (stream_no s) outgoing]))
                in (res, [Dialed p, Opened (stream_no s)] @ body @ [Closed (stream_no s)]))))"

definition SendRequest ::
  "impl \<Rightarrow> p2p_ID \<Rightarrow> Message \<Rightarrow> (Message option \<times> error option) \<times> event list" where
  "SendRequest bsnet p outgoing =
     (case Connect (host bsnet) p of
        Some err \<Rightarrow> ((None, Some err), [Dialed p])
      | None \<Rightarrow>
          (case NewStream (host bsnet) p of
             Inl err \<Rightarrow> ((None, Some err), [Dialed p, OpenFailed p])
           | Inr s \<Rightarrow>
               (let (res, body) =
                      (case ToNet s outgoing of
                         Some err \<Rightarrow> ((None, Some err), [Wrote (stream_no s) outgoing, Log_Errorf])
                       | None \<Rightarrow>
                           (case FromNet s of
                              (incoming, Some err) \<Rightarrow>
                                ((incoming, Some err),
                                 [Wrote (stream_no s) outgoing, ReadFrom (stream_no s), Log_Errorf])
                            | (incoming, None) \<Rightarrow>
                                ((incoming, None),
                                 [Wrote (stream_no s) outgoing, ReadFrom (stream_no s)])))
                in (res, [Dialed p, Opened (stream_no s)] @ body @ [Closed (stream_no s)]))))"

definition SetDelegate :: "impl \<Rightarrow> Receiver option \<Rightarrow> impl" where
  "SetDelegate bsnet r = bsnet\<lparr>receiver := r\<rparr>"

definition Provide :: "impl \<Rightarrow> Key \<Rightarrow> error option \<times> event list" where
  "Provide bsnet k = (routing_Provide (routing bsnet) k, [Provided k])"

subsection \<open>Provider search\<close>




subsection \<open>Inbound streams\<close>

text \<open>
  \<open>handleNewStream\<close> has a pointer receiver and no result: the model returns the
  \<open>impl\<close> it leaves and its events. \<^verbatim>\<open>defer s.Close()\<close> is its first statement.
\<close>

definition handleNewStream :: "impl \<Rightarrow> Stream \<Rightarrow> impl \<times> event list" where
  "handleNewStream bsnet s =
     (bsnet,
      (case receiver bsnet of
         None \<Rightarrow> []
       | Some r \<Rightarrow>
           (case FromNet s of
              (received, Some err) \<Rightarrow>
                [ReadFrom (stream_no s), Go_ReceiveError r err, Log_Errorf]
            | (received, None) \<Rightarrow>
                [ReadFrom (stream_no s), Log_Debugf, ReceiveMessage r (RemotePeer s) received]))
      @ [Closed (stream_no s)])"

text \<open>
  \<open>NewFromIpfsHost\<close> installs \<open>handleNewStream\<close> as the host's handler for the protocol
  tag, and the host calls it once for every inbound stream of that tag. \<open>serve\<close> is
  these calls for the streams that arrive, each on the \<open>impl\<close> the calls before it
  left.
\<close>

fun serve :: "impl \<Rightarrow> Stream list \<Rightarrow> impl \<times> event list" where
  "serve bsnet [] = (bsnet, [])"
| "serve bsnet (s # ss) =
     (let (bsnet1, evs) = handleNewStream bsnet s;
          (bsnet2, evs') = serve bsnet1 ss
      in (bsnet2, evs @ evs'))"

text \<open>The streams a trace opens and the streams it closes, in order.\<close>

fun opened :: "event list \<Rightarrow> nat list" where
  "opened [] = []"
| "opened (Opened n # evs) = n # opened evs"
| "opened (e # evs) = opened evs"

fun closed :: "event list \<Rightarrow> nat list" where
  "closed [] = []"
| "closed (Closed n # evs) = n # closed evs"
| "closed (e # evs) = closed evs"


section \<open>The node (core/core.go)\<close>

subsection \<open>Data\<close>

datatype mode = invalidMode | offlineMode | onlineMode

text \<open>
  Collaborators are known by a number. The value of \<open>Routing\<close> carries its dynamic
  type, which \<open>teardown\<close> tests: the DHT that \<open>constructDHTRouting\<close> makes over a host, or
  the offline router of \<open>SetupOfflineRouting\<close>. The exchange is the offline one or
  bitswap over a host.
\<close>

datatype routing_value = IpfsDHT nat | OfflineRouter
datatype exchange_value = OfflineExchange | Bitswap nat

text \<open>
  The fields of \<open>IpfsNode\<close> that the functions below read or write; \<open>None\<close> is nil.
  \<open>Identity\<close> is a string, empty when not loaded. \<open>Blocks\<close> is a pointer to a struct,
  the other optional fields are interface values.
\<close>

record IpfsNode =
  Identity :: p2p_ID
  Repo :: "nat option"
  Peerstore :: "nat option"
  Blockstore :: "nat option"
  Blocks :: "nat option"
  PrivateKey :: "PrivKey option"
  PeerHost :: "nat option"
  Bootstrapper :: "nat option"
  Routing :: "routing_value option"
  Exchange :: "exchange_value option"
  Namesys :: "routing_value option option"
  Diagnostics :: "nat option"
  Reprovider :: "routing_value option"
  mode :: mode

text \<open>
  An \<open>io.Closer\<close> that \<open>teardown\<close> collects: an interface value holding one of the
  node's resources. \<open>Blocks_closer None\<close> is the interface value that holds a nil
  \<^verbatim>\<open>*bserv.BlockService\<close>: an interface holding a nil pointer is not the nil interface.
\<close>

datatype closer =
    Bootstrapper_closer nat
  | Repo_closer nat
  | Blocks_closer "nat option"
  | DHT_closer nat
  | Host_closer nat

text \<open>
  What the node's functions do to the world outside:
  \<^item> \<open>AddPrivKey\<close>, \<open>AddPubKey\<close>, \<open>Peerstore_AddAddresses\<close>: calls on \<open>n.Peerstore\<close>
  \<^item> \<open>NewHost h\<close>: \<^verbatim>\<open>swarm.NewNetwork\<close> and \<^verbatim>\<open>p2pbhost.New\<close> made host \<open>h\<close>
  \<^item> \<open>NetworkFailed\<close>: \<^verbatim>\<open>swarm.NewNetwork\<close> returned an error
  \<^item> \<open>NewDHT h\<close>: \<^verbatim>\<open>dht.NewDHT(ctx, host, ds)\<close>
  \<^item> \<open>SetStreamHandler h\<close>, \<open>Notify h\<close>: the two calls of \<open>bsnet.NewFromIpfsHost\<close>
  \<^item> \<open>Go_ProvideEvery\<close>: \<^verbatim>\<open>go n.Reprovider.ProvideEvery(ctx, kReprovideFrequency)\<close>
  \<^item> \<open>StartBootstrap\<close>: the call of the package's \<open>Bootstrap(n, cfg)\<close>
  \<^item> \<open>Close c\<close>: \<^verbatim>\<open>c.Close()\<close>
\<close>

datatype action =
    AddPrivKey p2p_ID PrivKey
  | AddPubKey p2p_ID PubKey
  | Peerstore_AddAddresses p2p_ID "Multiaddr list"
  | NewHost nat
  | NetworkFailed
  | NewDHT nat
  | SetStreamHandler nat
  | Notify nat
  | Go_ProvideEvery
  | StartBootstrap
  | Close closer

text \<open>
  The configuration and the collaborators whose code is elsewhere, as what they return:
  \<^item> \<open>Swarm\<close>: \<^verbatim>\<open>cfg.Addresses.Swarm\<close>
  \<^item> \<open>DecodePrivateKey\<close>: \<^verbatim>\<open>cfg.DecodePrivateKey("passphrase todo!")\<close>
  \<^item> \<open>IDFromPrivateKey\<close>, \<open>sk_GetPublic\<close> (\<^verbatim>\<open>sk.GetPublic()\<close>): of the peer and crypto packages
  \<^item> \<open>NewMultiaddr\<close>, \<open>FilterUsableAddrs\<close>: of the multiaddr and addrutil packages
  \<^item> \<open>NewNetwork\<close>: the host that \<^verbatim>\<open>p2pbhost.New\<close> makes of the network of
    \<^verbatim>\<open>swarm.NewNetwork(ctx, filteredAddrs, id, ps)\<close>, or its error
  \<^item> \<open>InterfaceListenAddresses\<close>: of the host's network
  \<^item> \<open>StartBootstrapper\<close>: the two results of the package's \<open>Bootstrap(n, cfg)\<close>
  \<^item> \<open>Close_result\<close>: the error of \<^verbatim>\<open>c.Close()\<close>
\<close>

record env =
  Swarm :: "string list"
  DecodePrivateKey :: "error + PrivKey"
  IDFromPrivateKey :: "PrivKey \<Rightarrow> error + p2p_ID"
  sk_GetPublic :: "PrivKey \<Rightarrow> PubKey"
  NewMultiaddr :: "string \<Rightarrow> error + Multiaddr"
  FilterUsableAddrs :: "Multiaddr list \<Rightarrow> Multiaddr list"
  NewNetwork :: "Multiaddr list \<Rightarrow> error + nat"
  InterfaceListenAddresses :: "nat \<Rightarrow> error + Multiaddr list"
  StartBootstrapper :: "nat option \<times> error option"
  Close_result :: "closer \<Rightarrow> error option"

subsection \<open>Going online\<close>

text \<open>The function \<open>loadPrivateKey(cfg, id)\<close>.\<close>

definition loadPrivateKey :: "env \<Rightarrow> p2p_ID \<Rightarrow> error + PrivKey" where
  "loadPrivateKey e i =
     (case DecodePrivateKey e of
        Inl err \<Rightarrow> Inl err
      | Inr sk \<Rightarrow>
          (case IDFromPrivateKey e sk of
             Inl err \<Rightarrow> Inl err
           | Inr id2 \<Rightarrow> if id2 \<noteq> i then Inl IdMismatch else Inr sk))"

text \<open>The method \<open>loadPrivateKey\<close> of the node.\<close>

definition node_loadPrivateKey :: "env \<Rightarrow> IpfsNode \<Rightarrow> error option \<times> IpfsNode \<times> action list" where
  "node_loadPrivateKey e n =
     (if Identity n = [] \<or> Peerstore n = None then (Some OutOfOrder, n, [])
      else if PrivateKey n \<noteq> None then (Some KeyAlreadyLoaded, n, [])
      else
        (case loadPrivateKey e (Identity n) of
           Inl err \<Rightarrow> (Some err, n, [])
         | Inr sk \<Rightarrow>
             (None, n\<lparr>PrivateKey := Some sk\<rparr>,
              [AddPrivKey (Identity n) sk, AddPubKey (Identity n) (sk_GetPublic e sk)])))"

text \<open>\<open>listenAddresses\<close>: the loop over \<open>Swarm\<close>, from index \<open>i\<close> on.\<close>

fun listenAddresses_from :: "env \<Rightarrow> nat \<Rightarrow> string list \<Rightarrow> error + Multiaddr list" where
  "listenAddresses_from e i [] = Inr []"
| "listenAddresses_from e i (addr # addrs) =
     (case NewMultiaddr e addr of
        Inl err \<Rightarrow> Inl (ParseFailure i)
      | Inr a \<Rightarrow>
          (case listenAddresses_from e (Suc i) addrs of
             Inl err \<Rightarrow> Inl err
           | Inr listen \<Rightarrow> Inr (a # listen)))"

definition listenAddresses :: "env \<Rightarrow> error + Multiaddr list" where
  "listenAddresses e = listenAddresses_from e 0 (Swarm e)"

definition constructPeerHost :: "env \<Rightarrow> p2p_ID \<Rightarrow> (error + nat) \<times> action list" where
  "constructPeerHost e i =
     (case listenAddresses e of
        Inl err \<Rightarrow> (Inl err, [])
      | Inr listenAddrs \<Rightarrow>
          (let filteredAddrs = FilterUsableAddrs e listenAddrs in
           if length filteredAddrs < 1 then (Inl NotUsable, [])
           else
             (case NewNetwork e filteredAddrs of
                Inl err \<Rightarrow> (Inl err, [NetworkFailed])
              | Inr peerhost \<Rightarrow>
                  (case InterfaceListenAddresses e peerhost of
                     Inl err \<Rightarrow> (Inl err, [NewHost peerhost])
                   | Inr addrs \<Rightarrow>
                       (Inr peerhost, [NewHost peerhost, Peerstore_AddAddresses i addrs])))))"

text \<open>
  The method \<open>Bootstrap\<close> of the node, called with \<open>DefaultBootstrapConfig\<close>. The
  assignment \<^verbatim>\<open>n.Bootstrapper, err = Bootstrap(n, cfg)\<close> stores the first result whatever
  the second.
\<close>

definition Bootstrap :: "env \<Rightarrow> IpfsNode \<Rightarrow> error option \<times> IpfsNode \<times> action list" where
  "Bootstrap e n =
     (if Routing n = None then (None, n, [])
      else
        (let stop = (case Bootstrapper n of
                       None \<Rightarrow> []
                     | Some b \<Rightarrow> [Close (Bootstrapper_closer b)]);
             (b', err) = StartBootstrapper e
         in (err, n\<lparr>Bootstrapper := b'\<rparr>, stop @ [StartBootstrap])))"

definition StartOnlineServices :: "env \<Rightarrow> IpfsNode \<Rightarrow> error option \<times> IpfsNode \<times> action list" where
  "StartOnlineServices e n =
     (if PeerHost n \<noteq> None then (Some AlreadyOnline, n, [])
      else
        (case node_loadPrivateKey e n of
           (Some err, n1, acts1) \<Rightarrow> (Some err, n1, acts1)
         | (None, n1, acts1) \<Rightarrow>
             (case constructPeerHost e (Identity n1) of
                (Inl err, acts2) \<Rightarrow> (Some err, n1, acts1 @ acts2)
              | (Inr peerhost, acts2) \<Rightarrow>
                  (let n2 = n1\<lparr>PeerHost := Some peerhost,
                               Diagnostics := Some peerhost,
                               Routing := Some (IpfsDHT peerhost),
                               Exchange := Some (Bitswap peerhost),
                               Namesys := Some (Some (IpfsDHT peerhost)),
                               Reprovider := Some (IpfsDHT peerhost)\<rparr>;
                       (err, n3, acts3) = Bootstrap e n2
                   in (err, n3,
                       acts1 @ acts2 @
                       [NewDHT peerhost, SetStreamHandler peerhost, Notify peerhost,
                        Go_ProvideEvery] @ acts3)))))"

subsection \<open>Teardown\<close>

text \<open>
  \<open>addCloser\<close> appends an \<open>io.Closer\<close> that is not nil. \<open>n.Bootstrapper\<close>, \<open>n.Repo\<close> and
  \<open>n.PeerHost\<close> are interface values, nil when the field is; \<open>n.Blocks\<close> is a pointer,
  converted to an interface value that is not nil even when the pointer is; the DHT is
  the result of a type assertion that succeeded.
\<close>

definition addCloser :: "closer option \<Rightarrow> closer list \<Rightarrow> closer list" where
  "addCloser c closers = (case c of None \<Rightarrow> closers | Some c' \<Rightarrow> closers @ [c'])"

definition closers_of :: "IpfsNode \<Rightarrow> closer list" where
  "closers_of n =
     (let closers = addCloser (map_option Bootstrapper_closer (Bootstrapper n)) [];
          closers = addCloser (map_option Repo_closer (Repo n)) closers;
          closers = addCloser (Some (Blocks_closer (Blocks n))) closers;
          closers = (case Routing n of
                       Some (IpfsDHT d) \<Rightarrow> addCloser (Some (DHT_closer d)) closers
                     | _ \<Rightarrow> closers)
      in addCloser (map_option Host_closer (PeerHost n)) closers)"

text \<open>The loop that closes them all and collects the errors.\<close>

fun close_all :: "env \<Rightarrow> closer list \<Rightarrow> error list \<Rightarrow> error list \<times> action list" where
  "close_all e [] errs = (errs, [])"
| "close_all e (c # closers) errs =
     (let errs' = (case Close_result e c of None \<Rightarrow> errs | Some err \<Rightarrow> errs @ [err]);
          (errs'', acts) = close_all e closers errs'
      in (errs'', Close c # acts))"

definition teardown :: "env \<Rightarrow> IpfsNode \<Rightarrow> error option \<times> action list" where
  "teardown e n =
     (let (errs, acts) = close_all e (closers_of n) []
      in (if length errs > 0 then Some (errs ! 0) else None, acts))"

definition OnlineMode :: "IpfsNode \<Rightarrow> bool" where
  "OnlineMode n = (case mode n of onlineMode \<Rightarrow> True | _ \<Rightarrow> False)"

section \<open>Example values\<close>

text \<open>
  A host with the id QmSelf whose routing yields two provider records, the first for
  QmSelf itself; a stream whose message does not decode and one whose message does.
\<close>

definition example_stream_bad :: Stream where
  "example_stream_bad =
     \<lparr>stream_no = 1, RemotePeer = ''QmOther'', ToNet = (\<lambda>m. None),
      FromNet = (None, Some (External ''unexpected EOF''))\<rparr>"

definition example_stream_good :: Stream where
  "example_stream_good =
     \<lparr>stream_no = 2, RemotePeer = ''QmOther'', ToNet = (\<lambda>m. None),
      FromNet = (Some ''block'', None)\<rparr>"

definition example_net :: impl where
  "example_net =
     \<lparr>host = \<lparr>host_ID = ''QmSelf'', Connect = (\<lambda>p. None),
              NewStream = (\<lambda>p. Inr example_stream_bad)\<rparr>,
      routing = \<lparr>routing_FindProvidersAsync =
                   (\<lambda>k n. [\<lparr>ID = ''QmSelf'', Addrs = [''/ip4/10.0.0.1/tcp/4001'']\<rparr>,
                           \<lparr>ID = ''QmOther'', Addrs = [''/ip4/10.0.0.2/tcp/4001'']\<rparr>]),
                 routing_Provide = (\<lambda>k. None)\<rparr>,
      receiver = Some 1\<rparr>"

text \<open>
  A configuration with which every step of going online succeeds, and in which closing
  the repo and closing the host fail; a node before and after going online with it.
\<close>

definition example_env :: env where
  "example_env =
     \<lparr>Swarm = [''/ip4/0.0.0.0/tcp/4001''],
      DecodePrivateKey = Inr ''sk'',
      IDFromPrivateKey = (\<lambda>sk. Inr ''QmSelf''),
      sk_GetPublic = (\<lambda>sk. ''pk''),
      NewMultiaddr = (\<lambda>a. Inr a),
      FilterUsableAddrs = (\<lambda>as. as),
      NewNetwork = (\<lambda>as. Inr 7),
      InterfaceListenAddresses = (\<lambda>h. Inr [''/ip4/10.0.0.1/tcp/4001'']),
      StartBootstrapper = (Some 3, None),
      Close_result = (\<lambda>c. case c of Repo_closer r \<Rightarrow> Some (External ''repo'')
                                | Host_closer h \<Rightarrow> Some (External ''host'')
                                | _ \<Rightarrow> None)\<rparr>"

definition example_offline :: IpfsNode where
  "example_offline =
     \<lparr>Identity = ''QmSelf'', Repo = Some 1, Peerstore = Some 2, Blockstore = Some 4,
      Blocks = Some 5, PrivateKey = None, PeerHost = None, Bootstrapper = None,
      Routing = None, Exchange = Some OfflineExchange, Namesys = None, Diagnostics = None,
      Reprovider = None, mode = onlineMode\<rparr>"

definition example_online :: IpfsNode where
  "example_online =
     \<lparr>Identity = ''QmSelf'', Repo = Some 1, Peerstore = Some 2, Blockstore = Some 4,
      Blocks = Some 5, PrivateKey = Some ''sk'', PeerHost = Some 7, Bootstrapper = Some 3,
      Routing = Some (IpfsDHT 7), Exchange = Some (Bitswap 7),
      Namesys = Some (Some (IpfsDHT 7)), Diagnostics = Some 7,
      Reprovider = Some (IpfsDHT 7), mode = onlineMode\<rparr>"


section \<open>Properties of the peer registry\<close>

lemma wf_NewPeerstore: "wf NewPeerstore"
  by (simp add: wf_def NewPeerstore_def)

lemma wf_lookup: "wf ps \<Longrightarrow> data ps k = Some p \<Longrightarrow> p < length (heap ps)"
  by (auto simp: wf_def ran_def)

lemma wf_alloc: "wf ps \<Longrightarrow> wf (snd (alloc r ps))"
  by (auto simp: alloc_def wf_def)

lemma wf_Get: "wf ps \<Longrightarrow> wf (snd (Get ps i))"
  by (simp add: Get_def split: option.splits)

lemma wf_FindOrCreate: "wf ps \<Longrightarrow> wf (snd (FindOrCreate ps i))"
  by (auto simp: FindOrCreate_def alloc_def wf_def ran_def split: option.splits if_splits)

lemma wf_Add: "wf ps \<Longrightarrow> wf (snd (Add ps r))"
  by (auto simp: Add_def Let_def wf_def ran_def split: option.splits if_splits)

lemma wf_Delete: "wf ps \<Longrightarrow> wf (snd (Delete ps i))"
  by (auto simp: Delete_def wf_def ran_def split: if_splits)

lemma wf_WithKeyPair: "wf ps \<Longrightarrow> wf (snd (WithKeyPair G E H ps sk pk))"
  by (simp add: WithKeyPair_def Let_def case_prod_beta wf_Add wf_alloc
      split: option.splits sum.splits)

lemma wf_WithID: "wf ps \<Longrightarrow> wf (snd (WithID ps i))"
  by (simp add: WithID_def case_prod_beta wf_Add wf_alloc)

text \<open>
  Claim C2. \<open>Add\<close> of a record \<open>r\<close> whose id has the key \<open>k\<close>, in a registry state that
  satisfies the invariant: when nothing is stored under \<open>k\<close>, \<open>r\<close> is stored under \<open>k\<close>
  and returned; when the stored pointer is \<open>r\<close> itself, \<open>r\<close> is returned and the state
  is the one before the call; when another record \<open>existing\<close> is stored, the result is
  \<open>existing\<close> and not \<open>r\<close>, the map is untouched, and the only change to the store is
  that the record behind \<open>existing\<close> becomes its \<open>Update\<close> with the record behind \<open>r\<close>.
\<close>

theorem Add_cases:
  assumes "wf ps" and "r < length (heap ps)" and "k = String (pid (heap ps ! r))"
  shows "(data ps k = None \<longrightarrow> Add ps r = (Inr r, ps\<lparr>data := (data ps)(k \<mapsto> r)\<rparr>))
       \<and> (data ps k = Some r \<longrightarrow> Add ps r = (Inr r, ps))
       \<and> (\<forall>existing. data ps k = Some existing \<and> existing \<noteq> r \<longrightarrow>
            Add ps r = (Inr existing,
              ps\<lparr>heap := (heap ps)[existing := Update (heap ps ! existing) (heap ps ! r)]\<rparr>))"
  using assms wf_lookup[OF assms(1)]
  by (auto simp: Add_def Let_def)

text \<open>
  The scenario of the spec: peer X is registered with its id only, then a second record
  for X with the address addr1 is added. The first record is returned, with addr1.
\<close>

theorem Add_cases_witness:
  "Add \<lparr>heap = [bare (Some ''X''), (bare (Some ''X''))\<lparr>addresses := {''addr1''}\<rparr>],
        data = [''X'' \<mapsto> 0]\<rparr> 1
   = (Inr 0, \<lparr>heap = [(bare (Some ''X''))\<lparr>addresses := {''addr1''}\<rparr>,
                       (bare (Some ''X''))\<lparr>addresses := {''addr1''}\<rparr>],
              data = [''X'' \<mapsto> 0]\<rparr>)"
  using Add_cases [of "\<lparr>heap = [bare (Some ''X''), (bare (Some ''X''))\<lparr>addresses := {''addr1''}\<rparr>],
        data = [''X'' \<mapsto> 0]\<rparr>" 1 "''X''"]
  by (simp add: wf_def String_def bare_def Update_def)

text \<open>
  Claim C3, as the code has it. For the nil id, \<open>Get\<close> returns the invalid-argument
  error and \<open>FindOrCreate\<close> panics, and neither returns a record or changes the
  registry. For an id that is not nil and has no entry, \<open>Get\<close> returns the not-present
  error.
\<close>

theorem Get_FindOrCreate_nil:
  "Get ps None = (Inl InvalidArgument, ps)
   \<and> FindOrCreate ps None = (Inl (Panic ''wat''), ps)
   \<and> (i \<noteq> None \<and> data ps (String i) = None \<longrightarrow> Get ps i = (Inl (NotPresent i), ps))"
  by (simp add: Get_def FindOrCreate_def)

theorem Get_FindOrCreate_nil_witness:
  "Get NewPeerstore None = (Inl InvalidArgument, NewPeerstore)
   \<and> FindOrCreate NewPeerstore None = (Inl (Panic ''wat''), NewPeerstore)
   \<and> Get NewPeerstore (Some ''X'') = (Inl (NotPresent (Some ''X'')), NewPeerstore)"
  using Get_FindOrCreate_nil [of NewPeerstore "Some ''X''"]
  by (simp add: NewPeerstore_def)

text \<open>
  Claim C3, as the spec states it, fails for the empty id that is not nil:
  \<open>FindOrCreate\<close> reports no error and returns a newly made record whose id is empty.
\<close>

theorem FindOrCreate_empty_id_counterexample:
  "FindOrCreate NewPeerstore (Some [])
   = (Inr 0, \<lparr>heap = [bare (Some [])], data = [[] \<mapsto> 0]\<rparr>)"
  by (simp add: FindOrCreate_def NewPeerstore_def alloc_def String_def)

text \<open>
  Claim C4. When both keys are given and the public key is not the one \<open>GetPublic\<close>
  derives from the private key, \<open>WithKeyPair\<close> returns the key-mismatch error and the
  registry's state is the one before the call: nothing is allocated, stored or merged.
\<close>

theorem WithKeyPair_mismatch:
  "\<not> Equals pk (GetPublic sk) \<Longrightarrow>
   WithKeyPair GetPublic Equals IDFromPubKey ps (Some sk) (Some pk) = (Inl KeyMismatch, ps)"
  by (simp add: WithKeyPair_def)

theorem WithKeyPair_mismatch_witness:
  "WithKeyPair (\<lambda>s. ''pub-'' @ s) (=) (\<lambda>k. Inr (Some (''id-'' @ k)))
     \<lparr>heap = [bare (Some ''X'')], data = [''X'' \<mapsto> 0]\<rparr> (Some ''k1'') (Some ''pub-k2'')
   = (Inl KeyMismatch, \<lparr>heap = [bare (Some ''X'')], data = [''X'' \<mapsto> 0]\<rparr>)"
  using WithKeyPair_mismatch [of "(=)" "''pub-k2''" "\<lambda>s. ''pub-'' @ s" "''k1''"
      "\<lambda>k. Inr (Some (''id-'' @ k))" "\<lparr>heap = [bare (Some ''X'')], data = [''X'' \<mapsto> 0]\<rparr>"]
  by simp

text \<open>
  Claim C10, as the code has it. \<open>WithKeyPair\<close> returns the nil-keys error when both
  keys are nil, and for no other arguments. With a nil private key and a public key
  that is not nil it does not return an error: the call \<^verbatim>\<open>sk.GetPublic()\<close> on the nil
  interface value panics before anything else is checked. With a private key that is
  not nil, the call returns an error in two cases only, a public key that is given and
  is not the derived one, and a public key that cannot be hashed; otherwise it is
  accepted and returns the newly allocated record, also when the private key is given
  alone. Whenever the result is an error or a panic, the registry is as it was.
\<close>

theorem WithKeyPair_nil:
  "WithKeyPair G E H ps None None = (Inl NilKeys, ps)
   \<and> WithKeyPair G E H ps None (Some pk) = (Inl NilDereference, ps)
   \<and> (fst (WithKeyPair G E H ps sk pk') = Inl NilKeys) = (sk = None \<and> pk' = None)
   \<and> fst (WithKeyPair G E H ps (Some s) None) =
       (case H (G s) of Inl m \<Rightarrow> Inl (HashFailed m) | Inr i \<Rightarrow> Inr (length (heap ps)))
   \<and> fst (WithKeyPair G E H ps (Some s) (Some pk)) =
       (if \<not> E pk (G s) then Inl KeyMismatch
        else (case H pk of Inl m \<Rightarrow> Inl (HashFailed m) | Inr i \<Rightarrow> Inr (length (heap ps))))
   \<and> (\<forall>e. fst (WithKeyPair G E H ps sk pk') = Inl e \<longrightarrow>
         snd (WithKeyPair G E H ps sk pk') = ps)"
proof -
  have a: "WithKeyPair G E H ps None None = (Inl NilKeys, ps)"
    by (simp add: WithKeyPair_def)
  have b: "WithKeyPair G E H ps None (Some pk) = (Inl NilDereference, ps)"
    by (simp add: WithKeyPair_def)
  have c: "(fst (WithKeyPair G E H ps sk pk') = Inl NilKeys) = (sk = None \<and> pk' = None)"
    by (auto simp: WithKeyPair_def Let_def split: option.splits sum.splits prod.splits)
  have d: "fst (WithKeyPair G E H ps (Some s) None) =
       (case H (G s) of Inl m \<Rightarrow> Inl (HashFailed m) | Inr i \<Rightarrow> Inr (length (heap ps)))"
    by (simp add: WithKeyPair_def Let_def alloc_def split: sum.splits)
  have e: "fst (WithKeyPair G E H ps (Some s) (Some pk)) =
       (if \<not> E pk (G s) then Inl KeyMismatch
        else (case H pk of Inl m \<Rightarrow> Inl (HashFailed m) | Inr i \<Rightarrow> Inr (length (heap ps))))"
    by (simp add: WithKeyPair_def Let_def alloc_def split: sum.splits)
  have f: "\<forall>e. fst (WithKeyPair G E H ps sk pk') = Inl e \<longrightarrow>
         snd (WithKeyPair G E H ps sk pk') = ps"
    by (auto simp: WithKeyPair_def Let_def alloc_def split: option.splits sum.splits if_splits)
  from a b c d e f show ?thesis by blast
qed

text \<open>
  A nil private key with a public key panics; a private key alone, and a private key
  with its own public key, are accepted and return the first record allocated.
\<close>

theorem WithKeyPair_nil_witness:
  "WithKeyPair (\<lambda>s. ''pub-'' @ s) (=) (\<lambda>k. Inr (Some (''id-'' @ k))) NewPeerstore
     None (Some ''pub-k1'') = (Inl NilDereference, NewPeerstore)
   \<and> fst (WithKeyPair (\<lambda>s. ''pub-'' @ s) (=) (\<lambda>k. Inr (Some (''id-'' @ k))) NewPeerstore
     (Some ''k1'') None) = Inr 0
   \<and> fst (WithKeyPair (\<lambda>s. ''pub-'' @ s) (=) (\<lambda>k. Inr (Some (''id-'' @ k))) NewPeerstore
     (Some ''k1'') (Some ''pub-k1'')) = Inr 0"
  using WithKeyPair_nil [of "\<lambda>s. ''pub-'' @ s" "(=)" "\<lambda>k. Inr (Some (''id-'' @ k))"
      NewPeerstore "''pub-k1''" "Some ''k1''" None "''k1''"]
  by (simp add: NewPeerstore_def)

text \<open>
  Claim C10, as it is stated, fails: both keys nil is not the only case that is
  rejected with an error. A private key whose public key cannot be hashed is rejected
  with the hash error, and a private key with a public key that is not its own is
  rejected with the key-mismatch error.
\<close>

theorem WithKeyPair_other_errors_counterexample:
  "WithKeyPair (\<lambda>s. ''pub-'' @ s) (=) (\<lambda>k. Inl ''no hash'') NewPeerstore (Some ''k1'') None
     = (Inl (HashFailed ''no hash''), NewPeerstore)
   \<and> WithKeyPair (\<lambda>s. ''pub-'' @ s) (=) (\<lambda>k. Inr (Some (''id-'' @ k))) NewPeerstore
       (Some ''k1'') (Some ''pub-k2'') = (Inl KeyMismatch, NewPeerstore)"
  by (simp add: WithKeyPair_def)


section \<open>Properties of the exchange transport\<close>








text \<open>
  Claim C5. When a receiver is installed and the message of an inbound stream does not
  decode, the handler starts one goroutine that calls the receiver's error hook with
  the error, writes the log, closes the stream and returns, leaving the transport as
  it was; the streams that arrive after it are served as if it had not arrived. The
  handler has no result through which the error could reach a caller.
\<close>

theorem handleNewStream_decode_failure:
  assumes "receiver bsnet = Some r" and "FromNet s = (received, Some err)"
  shows "handleNewStream bsnet s =
           (bsnet, [ReadFrom (stream_no s), Go_ReceiveError r err, Log_Errorf,
                    Closed (stream_no s)])
       \<and> serve bsnet (s # ss) =
           (fst (serve bsnet ss),
            [ReadFrom (stream_no s), Go_ReceiveError r err, Log_Errorf, Closed (stream_no s)]
              @ snd (serve bsnet ss))"
  using assms by (simp add: handleNewStream_def case_prod_beta)

theorem handleNewStream_decode_failure_witness:
  "serve example_net [example_stream_bad, example_stream_good] =
     (example_net,
      [ReadFrom 1, Go_ReceiveError 1 (External ''unexpected EOF''), Log_Errorf, Closed 1,
       ReadFrom 2, Log_Debugf, ReceiveMessage 1 ''QmOther'' (Some ''block''), Closed 2])"
  using handleNewStream_decode_failure [of example_net 1 example_stream_bad None
      "External ''unexpected EOF''" "[example_stream_good]"]
  by (simp add: example_net_def example_stream_bad_def example_stream_good_def
      handleNewStream_def)

text \<open>
  Claim C6. In \<open>SendMessage\<close> and in \<open>SendRequest\<close> the streams closed are the streams
  opened: none when the dial or the opening fails, and otherwise the one stream that
  \<open>NewStream\<close> returned, closed once, whatever writing and reading did. When writing
  succeeds and reading fails, \<open>SendRequest\<close> returns the error of the read, and the
  stream is closed as its last event.
\<close>

theorem Send_closes_stream:
  "closed (snd (SendMessage bsnet p m)) = opened (snd (SendMessage bsnet p m))
   \<and> closed (snd (SendRequest bsnet p m)) = opened (snd (SendRequest bsnet p m))
   \<and> opened (snd (SendMessage bsnet p m)) =
       (case Connect (host bsnet) p of
          Some e \<Rightarrow> []
        | None \<Rightarrow> (case NewStream (host bsnet) p of Inl e \<Rightarrow> [] | Inr s \<Rightarrow> [stream_no s]))
   \<and> opened (snd (SendRequest bsnet p m)) =
       (case Connect (host bsnet) p of
          Some e \<Rightarrow> []
        | None \<Rightarrow> (case NewStream (host bsnet) p of Inl e \<Rightarrow> [] | Inr s \<Rightarrow> [stream_no s]))
   \<and> (Connect (host bsnet) p = None \<and> NewStream (host bsnet) p = Inr s \<and> ToNet s m = None
        \<and> FromNet s = (incoming, Some err) \<longrightarrow>
      SendRequest bsnet p m = ((incoming, Some err),
        [Dialed p, Opened (stream_no s), Wrote (stream_no s) m, ReadFrom (stream_no s),
         Log_Errorf, Closed (stream_no s)]))"
  by (auto simp: SendMessage_def SendRequest_def split: option.splits sum.splits prod.splits)

theorem Send_closes_stream_witness:
  "SendRequest example_net ''QmOther'' ''want'' =
     ((None, Some (External ''unexpected EOF'')),
      [Dialed ''QmOther'', Opened 1, Wrote 1 ''want'', ReadFrom 1, Log_Errorf, Closed 1])
   \<and> closed (snd (SendMessage example_net ''QmOther'' ''want'')) = [1]"
  using Send_closes_stream [of example_net "''QmOther''" "''want''" example_stream_bad
      None "External ''unexpected EOF''"]
  by (simp add: example_net_def example_stream_bad_def)

text \<open>
  Claim C9. When no receiver is installed, the handler closes the stream and returns:
  nothing is read, no method of a receiver is called, nothing is logged, and the
  transport is as it was.
\<close>

theorem handleNewStream_no_receiver:
  "receiver bsnet = None \<Longrightarrow> handleNewStream bsnet s = (bsnet, [Closed (stream_no s)])"
  by (simp add: handleNewStream_def)

theorem handleNewStream_no_receiver_witness:
  "handleNewStream (SetDelegate example_net None) example_stream_good
     = (SetDelegate example_net None, [Closed 2])"
  using handleNewStream_no_receiver [of "SetDelegate example_net None" example_stream_good]
  by (simp add: SetDelegate_def example_stream_good_def)


section \<open>Properties of the node\<close>

lemma Bootstrap_PeerHost: "PeerHost (fst (snd (Bootstrap e n))) = PeerHost n"
  by (simp add: Bootstrap_def Let_def case_prod_beta)

lemma started_has_host:
  "fst (StartOnlineServices e n) = None \<Longrightarrow>
   PeerHost (fst (snd (StartOnlineServices e n))) \<noteq> None"
  by (auto simp: StartOnlineServices_def Let_def case_prod_beta Bootstrap_PeerHost
      split: if_splits prod.splits option.splits sum.splits)

lemma example_start:
  "StartOnlineServices example_env example_offline =
     (None, example_online,
      [AddPrivKey ''QmSelf'' ''sk'', AddPubKey ''QmSelf'' ''pk'', NewHost 7,
       Peerstore_AddAddresses ''QmSelf'' [''/ip4/10.0.0.1/tcp/4001''], NewDHT 7,
       SetStreamHandler 7, Notify 7, Go_ProvideEvery, StartBootstrap])"
  by (simp add: StartOnlineServices_def example_env_def example_offline_def
      example_online_def node_loadPrivateKey_def loadPrivateKey_def constructPeerHost_def
      listenAddresses_def Bootstrap_def)

text \<open>
  Claim C7. The source's test for "already online" is that the node has a host. On
  such a node \<open>StartOnlineServices\<close> returns the already-online error, does nothing and
  leaves every field of the node as it was. A node on which an earlier call returned
  without error is such a node: the next call, in whatever environment, is refused.
\<close>

theorem StartOnlineServices_already_online:
  "(PeerHost n \<noteq> None \<longrightarrow> StartOnlineServices e n = (Some AlreadyOnline, n, []))
   \<and> (fst (StartOnlineServices e n) = None \<longrightarrow>
        StartOnlineServices e' (fst (snd (StartOnlineServices e n)))
          = (Some AlreadyOnline, fst (snd (StartOnlineServices e n)), []))"
proof -
  have "PeerHost n \<noteq> None \<longrightarrow> StartOnlineServices e n = (Some AlreadyOnline, n, [])"
    by (simp add: StartOnlineServices_def)
  moreover have "\<And>m. PeerHost m \<noteq> None \<Longrightarrow>
      StartOnlineServices e' m = (Some AlreadyOnline, m, [])"
    by (simp add: StartOnlineServices_def)
  ultimately show ?thesis
    using started_has_host by blast
qed

theorem StartOnlineServices_already_online_witness:
  "StartOnlineServices example_env example_online = (Some AlreadyOnline, example_online, [])
   \<and> StartOnlineServices example_env (fst (snd (StartOnlineServices example_env example_offline)))
       = (Some AlreadyOnline, example_online, [])"
  using StartOnlineServices_already_online [of example_online example_env example_env]
    StartOnlineServices_already_online [of example_offline example_env example_env]
  by (simp add: example_start)

lemma close_all_eq:
  "close_all e cs errs = (errs @ List.map_filter (Close_result e) cs, map Close cs)"
  by (induction cs arbitrary: errs) (auto split: option.splits)

text \<open>
  Claim C8. \<open>teardown\<close> calls \<open>Close\<close> on every collected resource, in the order in
  which they were collected and whatever the calls before returned: the bootstrapper if
  there is one, the repo if there is one, the block service, the DHT if the routing is
  one, the host if there is one. Its result is the first of the errors these calls
  return, in that order, and nil when none returns an error.
\<close>

theorem teardown_order:
  "snd (teardown e n) = map Close (closers_of n)
   \<and> closers_of n =
       (case Bootstrapper n of None \<Rightarrow> [] | Some b \<Rightarrow> [Bootstrapper_closer b]) @
       (case Repo n of None \<Rightarrow> [] | Some r \<Rightarrow> [Repo_closer r]) @
       [Blocks_closer (Blocks n)] @
       (case Routing n of Some (IpfsDHT d) \<Rightarrow> [DHT_closer d] | _ \<Rightarrow> []) @
       (case PeerHost n of None \<Rightarrow> [] | Some h \<Rightarrow> [Host_closer h])
   \<and> fst (teardown e n) =
       (case List.map_filter (Close_result e) (closers_of n) of
          [] \<Rightarrow> None
        | err # errs \<Rightarrow> Some err)"
proof -
  have a: "snd (teardown e n) = map Close (closers_of n)"
    by (simp add: teardown_def close_all_eq)
  have b: "closers_of n =
       (case Bootstrapper n of None \<Rightarrow> [] | Some b \<Rightarrow> [Bootstrapper_closer b]) @
       (case Repo n of None \<Rightarrow> [] | Some r \<Rightarrow> [Repo_closer r]) @
       [Blocks_closer (Blocks n)] @
       (case Routing n of Some (IpfsDHT d) \<Rightarrow> [DHT_closer d] | _ \<Rightarrow> []) @
       (case PeerHost n of None \<Rightarrow> [] | Some h \<Rightarrow> [Host_closer h])"
    by (simp add: closers_of_def addCloser_def split: option.splits routing_value.splits)
  have c: "fst (teardown e n) =
       (case List.map_filter (Close_result e) (closers_of n) of
          [] \<Rightarrow> None
        | err # errs \<Rightarrow> Some err)"
    by (simp add: teardown_def close_all_eq split: list.splits)
  from a b c show ?thesis by blast
qed

text \<open>
  Closing the repo and closing the host both fail: all five are closed, in order, and
  the repo's error is the result.
\<close>

theorem teardown_order_witness:
  "teardown example_env example_online =
     (Some (External ''repo''),
      [Close (Bootstrapper_closer 3), Close (Repo_closer 1), Close (Blocks_closer (Some 5)),
       Close (DHT_closer 7), Close (Host_closer 7)])"
  using teardown_order [of example_env example_online]
  by (simp add: prod_eq_iff example_env_def example_online_def)

end
